theory Spec2Isabelle
  imports Main "HOL-Library.Word" "HOL-Library.AList"
begin

section \<open>The master package: data model\<close>

text \<open>
  Shallow embedding of \<^verbatim>\<open>pkg/master/master.go\<close>. Values of other packages that the
  file only passes along are handles; constructors of other packages are symbolic
  constructors recording their arguments.
\<close>

type_synonym error = string

text \<open>\<^verbatim>\<open>time.Duration\<close> is an \<^verbatim>\<open>int64\<close> count of nanoseconds.\<close>

type_synonym duration = "64 word"

datatype client = ClientRef nat
datatype cloud = CloudRef nat
datatype etcd_helper = EtcdHelperRef nat
datatype pod_info_getter = PodInfoGetterRef nat
datatype http_client = HttpClient

text \<open>\<^verbatim>\<open>api.NodeResources\<close>: the capacity of a node, a list of named quantities.\<close>

type_synonym node_resources = "(string \<times> int) list"

text \<open>\<^verbatim>\<open>api.Minion{TypeMeta: api.TypeMeta{ID: ...}, NodeResources: ...}\<close>\<close>

datatype minion = Minion (TypeMeta_ID: string) (Minion_NodeResources: node_resources)

record Config =
  Client :: "client option"
  Cloud :: "cloud option"
  EtcdHelper :: etcd_helper
  HealthCheckMinions :: bool
  Minions :: "string list"
  MinionCacheTTL :: duration
  EventTTL :: duration
  MinionRegexp :: string
  PodInfoGetter :: "pod_info_getter option"
  NodeResources :: node_resources

text \<open>
  \<^verbatim>\<open>etcd.NewRegistry(helper, manifestFactory)\<close>; the factory is
  \<^verbatim>\<open>&pod.BasicManifestFactory{ServiceRegistry: ...}\<close> or nil.
\<close>

datatype etcd_registry = EtcdRegistry etcd_helper "manifest_factory option"
  and manifest_factory = BasicManifestFactory etcd_registry

text \<open>
  The values a \<^verbatim>\<open>minion.Registry\<close> takes in this file: the etcd registry
  (\<open>Static\<close>), and the results of \<^verbatim>\<open>minion.NewCloudRegistry\<close> (\<open>CloudDiscovered\<close>),
  \<^verbatim>\<open>minion.NewHealthyRegistry\<close> (\<open>HealthFiltered\<close>) and
  \<^verbatim>\<open>minion.NewCachingRegistry\<close> (\<open>Cached\<close>).
\<close>

datatype minion_registry =
    Static etcd_registry
  | CloudDiscovered cloud string node_resources
  | HealthFiltered minion_registry http_client
  | Cached minion_registry duration

datatype event_registry = EventEtcdRegistry etcd_helper "64 word"

datatype pod_cache = PodCache "pod_info_getter option" etcd_registry

text \<open>The \<^verbatim>\<open>apiserver.RESTStorage\<close> adapters built by \<^verbatim>\<open>Master.init\<close>.\<close>

datatype rest_storage =
    PodREST "cloud option" pod_cache "pod_info_getter option" etcd_registry "client option"
  | ControllerREST etcd_registry etcd_registry
  | ServiceREST etcd_registry "cloud option" minion_registry
  | EndpointREST etcd_registry
  | MinionREST minion_registry
  | EventREST event_registry
  | BindingREST etcd_registry

datatype codec = V1beta1_Codec | V1beta2_Codec
datatype self_linker = Latest_SelfLinker

datatype log_entry = Errorf string "error list"

text \<open>\<^verbatim>\<open>go util.Forever(func() { podCache.UpdateAllContainers() }, period)\<close>\<close>

datatype goroutine = Forever_UpdateAllContainers pod_cache duration

text \<open>
  A Go map is a reference to a mutable object. The heap holds the map objects, each an
  association list with distinct keys; a map value is the index of its object, and the nil
  map is \<open>None\<close>.
\<close>

type_synonym map_object = "(string \<times> rest_storage) list"
type_synonym map_ref = nat

record Master =
  podRegistry :: etcd_registry
  controllerRegistry :: etcd_registry
  serviceRegistry :: etcd_registry
  endpointRegistry :: etcd_registry
  minionRegistry :: minion_registry
  bindingRegistry :: etcd_registry
  eventRegistry :: event_registry
  storage :: "map_ref option"
  client :: "client option"

text \<open>
  Everything outside the values of the program: the node entries stored behind each etcd
  helper, the heap of map objects, the messages logged so far and the goroutines started.
\<close>

record world =
  nodes :: "etcd_helper \<Rightarrow> minion list"
  heap :: "map_object list"
  glog :: "log_entry list"
  goroutines :: "goroutine list"

text \<open>
  The behaviour of the collaborators that the file calls and does not define: the two
  results of the cloud registry's constructor (whether the registry is nil, and the
  error), when the constructor of the caching registry fails, when the storage backend
  rejects a node entry, the Go conversion \<^verbatim>\<open>uint64(d.Seconds())\<close>, which goes through
  \<^verbatim>\<open>float64\<close>, the instances a cloud integration reports for a pattern, and the
  outcome of the health probe of a node.
\<close>

record env =
  cloudRegistryNil :: "cloud \<Rightarrow> string \<Rightarrow> node_resources \<Rightarrow> bool"
  cloudRegistryErr :: "cloud \<Rightarrow> string \<Rightarrow> node_resources \<Rightarrow> error option"
  cachingRegistryErr :: "minion_registry \<Rightarrow> duration \<Rightarrow> error option"
  createMinionErr :: "minion list \<Rightarrow> minion \<Rightarrow> error option"
  secondsToUint64 :: "duration \<Rightarrow> 64 word"
  cloudInstances :: "cloud \<Rightarrow> string \<Rightarrow> string list"
  minionHealthy :: "string \<Rightarrow> bool"

section \<open>Collaborators\<close>

text \<open>
  Modelled from the spec: \<^verbatim>\<open>minion.NewCloudRegistry\<close> (package
  \<^verbatim>\<open>pkg/registry/minion\<close>) builds a CloudDiscovered registry backed by the cloud
  integration and the filter pattern. It has two results, a registry and an error, and
  the caller tests each on its own, so both are kept: the registry is nil (\<open>None\<close>) or
  the CloudDiscovered registry, and the error is nil (\<open>None\<close>) or not, in any
  combination.
\<close>

definition NewCloudRegistry ::
  "env \<Rightarrow> cloud \<Rightarrow> string \<Rightarrow> node_resources \<Rightarrow> minion_registry option \<times> error option" where
  "NewCloudRegistry e cl matchRE res =
     ((if cloudRegistryNil e cl matchRE res then None
       else Some (CloudDiscovered cl matchRE res)),
      cloudRegistryErr e cl matchRE res)"

text \<open>
  Modelled from the spec: \<^verbatim>\<open>minion.NewHealthyRegistry\<close> wraps a registry in a
  HealthFiltered decorator; it has no error result.
\<close>

definition NewHealthyRegistry :: "minion_registry \<Rightarrow> http_client \<Rightarrow> minion_registry" where
  "NewHealthyRegistry delegate cl = HealthFiltered delegate cl"

text \<open>
  Modelled from the spec: \<^verbatim>\<open>minion.NewCachingRegistry\<close> wraps a registry in a Cached
  decorator with the given interval as TTL, or fails.
\<close>

definition NewCachingRegistry ::
  "env \<Rightarrow> minion_registry \<Rightarrow> duration \<Rightarrow> error + minion_registry" where
  "NewCachingRegistry e delegate ttl =
     (case cachingRegistryErr e delegate ttl of
        Some err \<Rightarrow> Inl err
      | None \<Rightarrow> Inr (Cached delegate ttl))"

text \<open>
  Modelled from the spec: \<^verbatim>\<open>CreateMinion\<close> of the etcd registry (package
  \<^verbatim>\<open>pkg/registry/etcd\<close>) creates a node entry in the storage backend of the
  registry's helper, or reports an error and leaves the backend as it was.
\<close>

fun CreateMinion :: "env \<Rightarrow> etcd_registry \<Rightarrow> minion \<Rightarrow> world \<Rightarrow> error option \<times> world" where
  "CreateMinion e (EtcdRegistry h f) m w =
     (case createMinionErr e (nodes w h) m of
        Some err \<Rightarrow> (Some err, w)
      | None \<Rightarrow> (None, w\<lparr>nodes := (nodes w)(h := nodes w h @ [m])\<rparr>))"


definition glog_Errorf :: "string \<Rightarrow> error list \<Rightarrow> world \<Rightarrow> world" where
  "glog_Errorf fmt args w = w\<lparr>glog := glog w @ [Errorf fmt args]\<rparr>"

subsection \<open>Go maps\<close>

text \<open>\<^verbatim>\<open>make(map[string]apiserver.RESTStorage)\<close> and a map literal allocate a new object.\<close>

definition new_map :: "map_object \<Rightarrow> world \<Rightarrow> map_ref \<times> world" where
  "new_map entries w = (length (heap w), w\<lparr>heap := heap w @ [entries]\<rparr>)"

text \<open>\<^verbatim>\<open>storage[k] = v\<close>\<close>

definition map_assign :: "map_ref \<Rightarrow> string \<Rightarrow> rest_storage \<Rightarrow> world \<Rightarrow> world" where
  "map_assign r k v w = w\<lparr>heap := (heap w)[r := AList.update k v (heap w ! r)]\<rparr>"

text \<open>\<^verbatim>\<open>delete(storage, k)\<close>\<close>

definition map_delete :: "map_ref \<Rightarrow> string \<Rightarrow> world \<Rightarrow> world" where
  "map_delete r k w = w\<lparr>heap := (heap w)[r := AList.delete k (heap w ! r)]\<rparr>"

text \<open>
  The entries a \<^verbatim>\<open>range\<close> loop visits: none for the nil map, the entries of the
  object otherwise, each once, here in the order of the association list.
\<close>

definition map_range :: "map_ref option \<Rightarrow> world \<Rightarrow> map_object" where
  "map_range r w = (case r of None \<Rightarrow> [] | Some a \<Rightarrow> heap w ! a)"

text \<open>What a caller reads from a map: \<^verbatim>\<open>v, ok := storage[k]\<close>.\<close>

definition map_lookup :: "map_ref \<Rightarrow> world \<Rightarrow> string \<Rightarrow> rest_storage option" where
  "map_lookup r w = map_of (heap w ! r)"

section \<open>makeMinionRegistry\<close>

text \<open>
  The loop \<^verbatim>\<open>for _, minionID := range c.Minions\<close>: one \<^verbatim>\<open>CreateMinion\<close> call per
  identifier, whose result the source does not read.
\<close>

fun createMinions ::
  "env \<Rightarrow> etcd_registry \<Rightarrow> node_resources \<Rightarrow> string list \<Rightarrow> world \<Rightarrow> world" where
  "createMinions e reg res [] w = w"
| "createMinions e reg res (minionID # rest) w =
     (case CreateMinion e reg (Minion minionID res) w of
        (err, w') \<Rightarrow> createMinions e reg res rest w')"

text \<open>
  The variable \<^verbatim>\<open>minionRegistry\<close> starts as nil. In the cloud branch it takes the
  registry result of \<^verbatim>\<open>NewCloudRegistry\<close> whatever the error is, and the error, when
  not nil, is logged. The static path is taken when the variable is nil afterwards. The
  caching branch tests the error alone.
\<close>

definition makeMinionRegistry :: "env \<Rightarrow> Config \<Rightarrow> world \<Rightarrow> minion_registry \<times> world" where
  "makeMinionRegistry e c w =
     (let (cloudRegistry, w1) =
            (case Cloud c of
               None \<Rightarrow> (None, w)
             | Some cl \<Rightarrow>
                 if length (MinionRegexp c) > 0 then
                   (case NewCloudRegistry e cl (MinionRegexp c) (NodeResources c) of
                      (r, None) \<Rightarrow> (r, w)
                    | (r, Some err) \<Rightarrow>
                        (r,
                         glog_Errorf
                           ''Failed to initalize cloud minion registry reverting to static registry (%#v)''
                           [err] w))
                 else (None, w));
          (baseRegistry, w2) =
            (case cloudRegistry of
               None \<Rightarrow>
                 (Static (EtcdRegistry (EtcdHelper c) None),
                  createMinions e (EtcdRegistry (EtcdHelper c) None) (NodeResources c)
                    (Minions c) w1)
             | Some r \<Rightarrow> (r, w1));
          healthRegistry =
            (if HealthCheckMinions c then NewHealthyRegistry baseRegistry HttpClient
             else baseRegistry)
      in if 0 <s MinionCacheTTL c then
           (case NewCachingRegistry e healthRegistry (MinionCacheTTL c) of
              Inl err \<Rightarrow>
                (healthRegistry,
                 glog_Errorf ''Failed to initialize caching layer, ignoring cache.'' [] w2)
            | Inr cachingMinionRegistry \<Rightarrow> (cachingMinionRegistry, w2))
         else (healthRegistry, w2))"

section \<open>New and Master.init\<close>

text \<open>\<^verbatim>\<open>time.Second\<close>, in nanoseconds.\<close>

definition Second :: duration where
  "Second = 1000000000"

text \<open>
  Modelled from the spec: \<^verbatim>\<open>NewPodCache\<close> (package \<^verbatim>\<open>pkg/master\<close>, in a file
  other than \<^verbatim>\<open>master.go\<close>) builds the WorkloadCache from a workload-info source and
  the workload registry.
\<close>

definition NewPodCache :: "pod_info_getter option \<Rightarrow> etcd_registry \<Rightarrow> pod_cache" where
  "NewPodCache podInfoGetter pods = PodCache podInfoGetter pods"

text \<open>The \<^verbatim>\<open>go\<close> statement: the goroutine is started and the caller goes on.\<close>

definition go :: "goroutine \<Rightarrow> world \<Rightarrow> world" where
  "go g w = w\<lparr>goroutines := goroutines w @ [g]\<rparr>"

definition Master_init ::
  "cloud option \<Rightarrow> pod_info_getter option \<Rightarrow> Master \<Rightarrow> world \<Rightarrow> Master \<times> world" where
  "Master_init cl podInfoGetter m w =
     (let podCache = NewPodCache podInfoGetter (podRegistry m);
          w1 = go (Forever_UpdateAllContainers podCache (Second * 30)) w;
          (r, w2) =
            new_map
              [(''pods'', PodREST cl podCache podInfoGetter (podRegistry m) (client m)),
               (''replicationControllers'', ControllerREST (controllerRegistry m) (podRegistry m)),
               (''services'', ServiceREST (serviceRegistry m) cl (minionRegistry m)),
               (''endpoints'', EndpointREST (endpointRegistry m)),
               (''minions'', MinionREST (minionRegistry m)),
               (''events'', EventREST (eventRegistry m)),
               (''bindings'', BindingREST (bindingRegistry m))]
              w1
      in (m\<lparr>storage := Some r\<rparr>, w2))"

definition New :: "env \<Rightarrow> Config \<Rightarrow> world \<Rightarrow> Master \<times> world" where
  "New e c w =
     (let (minionRegistry', w1) = makeMinionRegistry e c w;
          serviceRegistry' = EtcdRegistry (EtcdHelper c) None;
          manifestFactory = BasicManifestFactory serviceRegistry';
          m = \<lparr>podRegistry = EtcdRegistry (EtcdHelper c) (Some manifestFactory),
               controllerRegistry = EtcdRegistry (EtcdHelper c) None,
               serviceRegistry = serviceRegistry',
               endpointRegistry = EtcdRegistry (EtcdHelper c) None,
               minionRegistry = minionRegistry',
               bindingRegistry = EtcdRegistry (EtcdHelper c) (Some manifestFactory),
               eventRegistry = EventEtcdRegistry (EtcdHelper c) (secondsToUint64 e (EventTTL c)),
               storage = None,
               client = Client c\<rparr>
      in Master_init (Cloud c) (PodInfoGetter c) m w1)"

section \<open>The versioned exporters\<close>

text \<open>
  The loop \<^verbatim>\<open>for k, v := range m.storage { storage[k] = v }\<close> over the entries the
  range visits.
\<close>

fun copy_storage :: "map_ref \<Rightarrow> map_object \<Rightarrow> world \<Rightarrow> world" where
  "copy_storage r [] w = w"
| "copy_storage r ((k, v) # rest) w = copy_storage r rest (map_assign r k v w)"

type_synonym api = "map_ref \<times> codec \<times> string \<times> self_linker"

definition API_v1beta1 :: "Master \<Rightarrow> world \<Rightarrow> api \<times> world" where
  "API_v1beta1 m w =
     (let (storage', w1) = new_map [] w;
          w2 = copy_storage storage' (map_range (storage m) w1) w1
      in ((storage', V1beta1_Codec, ''/api/v1beta1'', Latest_SelfLinker), w2))"

definition API_v1beta2 :: "Master \<Rightarrow> world \<Rightarrow> api \<times> world" where
  "API_v1beta2 m w =
     (let (storage', w1) = new_map [] w;
          w2 = copy_storage storage' (map_range (storage m) w1) w1
      in ((storage', V1beta2_Codec, ''/api/v1beta1'', Latest_SelfLinker), w2))"

section \<open>Properties of registries, maps and call sequences\<close>

text \<open>Whether a Cached layer occurs anywhere in a registry chain.\<close>

fun has_Cached :: "minion_registry \<Rightarrow> bool" where
  "has_Cached (Static r) = False"
| "has_Cached (CloudDiscovered cl re res) = False"
| "has_Cached (HealthFiltered d cl) = has_Cached d"
| "has_Cached (Cached d ttl) = True"

text \<open>A Cached layer occurs at most once, and then as the outermost layer.\<close>

definition Cached_outermost :: "minion_registry \<Rightarrow> bool" where
  "Cached_outermost r = (case r of Cached d ttl \<Rightarrow> \<not> has_Cached d | _ \<Rightarrow> \<not> has_Cached r)"

text \<open>No HealthFiltered layer wraps a Cached layer.\<close>

fun HealthFiltered_inside :: "minion_registry \<Rightarrow> bool" where
  "HealthFiltered_inside (Static r) = True"
| "HealthFiltered_inside (CloudDiscovered cl re res) = True"
| "HealthFiltered_inside (HealthFiltered d cl) = (\<not> has_Cached d \<and> HealthFiltered_inside d)"
| "HealthFiltered_inside (Cached d ttl) = HealthFiltered_inside d"



text \<open>The two exporters under one name, to speak of any sequence of calls.\<close>

datatype version = V1beta1 | V1beta2

fun API :: "version \<Rightarrow> Master \<Rightarrow> world \<Rightarrow> api \<times> world" where
  "API V1beta1 m w = API_v1beta1 m w"
| "API V1beta2 m w = API_v1beta2 m w"

fun run_calls :: "version list \<Rightarrow> Master \<Rightarrow> world \<Rightarrow> world" where
  "run_calls [] m w = w"
| "run_calls (v # vs) m w = run_calls vs m (snd (API v m w))"

text \<open>What a caller may do to a map it was handed: remove a key, or set one.\<close>

datatype mutation = Delete string | Assign string rest_storage

fun mutate :: "map_ref \<Rightarrow> mutation \<Rightarrow> world \<Rightarrow> world" where
  "mutate r (Delete k) w = map_delete r k w"
| "mutate r (Assign k v) w = map_assign r k v w"

text \<open>
  The storage field of a Master is nil or refers to an allocated map object, whose keys
  are distinct as the keys of a Go map are.
\<close>

definition storage_ok :: "Master \<Rightarrow> world \<Rightarrow> bool" where
  "storage_ok m w =
     (case storage m of
        None \<Rightarrow> True
      | Some a \<Rightarrow> a < length (heap w) \<and> distinct (map fst (heap w ! a)))"

definition resource_kinds :: "string set" where
  "resource_kinds =
     {''pods'', ''replicationControllers'', ''services'', ''endpoints'', ''minions'',
      ''events'', ''bindings''}"

text \<open>The keys of the internal handler map of a Master.\<close>

definition kinds :: "Master \<Rightarrow> world \<Rightarrow> string set" where
  "kinds m w = fst ` set (map_range (storage m) w)"

section \<open>Concrete configurations\<close>

definition example_env :: env where
  "example_env =
     \<lparr>cloudRegistryNil = (\<lambda>cl re res. False),
      cloudRegistryErr = (\<lambda>cl re res. None),
      cachingRegistryErr = (\<lambda>d ttl. None),
      createMinionErr = (\<lambda>s m. None),
      secondsToUint64 = (\<lambda>d. 0),
      cloudInstances = (\<lambda>cl re. []),
      minionHealthy = (\<lambda>minionID. True)\<rparr>"

definition rejecting_env :: env where
  "rejecting_env = example_env\<lparr>createMinionErr := (\<lambda>s m. Some ''etcd: connection refused'')\<rparr>"




definition cacheless_env :: env where
  "cacheless_env = example_env\<lparr>cachingRegistryErr := (\<lambda>d ttl. Some ''list failed'')\<rparr>"

definition empty_world :: world where
  "empty_world = \<lparr>nodes = (\<lambda>h. []), heap = [], glog = [], goroutines = []\<rparr>"

text \<open>Two explicit nodes, health checks on, a cache interval of 30 seconds.\<close>

definition example_config :: Config where
  "example_config =
     \<lparr>Client = None, Cloud = None, EtcdHelper = EtcdHelperRef 0,
      HealthCheckMinions = True, Minions = [''n1'', ''n2''], MinionCacheTTL = 30000000000,
      EventTTL = 0, MinionRegexp = [], PodInfoGetter = None,
      NodeResources = [(''cpu'', 1000)]\<rparr>"

definition static_config :: Config where
  "static_config = example_config\<lparr>HealthCheckMinions := False, MinionCacheTTL := 0\<rparr>"





definition blank_master :: Master where
  "blank_master =
     \<lparr>podRegistry = EtcdRegistry (EtcdHelperRef 0) None,
      controllerRegistry = EtcdRegistry (EtcdHelperRef 0) None,
      serviceRegistry = EtcdRegistry (EtcdHelperRef 0) None,
      endpointRegistry = EtcdRegistry (EtcdHelperRef 0) None,
      minionRegistry = Static (EtcdRegistry (EtcdHelperRef 0) None),
      bindingRegistry = EtcdRegistry (EtcdHelperRef 0) None,
      eventRegistry = EventEtcdRegistry (EtcdHelperRef 0) 0,
      storage = None,
      client = None\<rparr>"

definition example_master :: Master where
  "example_master = fst (New example_env static_config empty_world)"

definition example_world :: world where
  "example_world = snd (New example_env static_config empty_world)"

section \<open>The node registry builder\<close>

lemmas builder_defs = makeMinionRegistry_def NewCloudRegistry_def NewHealthyRegistry_def
  NewCachingRegistry_def glog_Errorf_def

lemma createMinions_frame:
  "heap (createMinions e (EtcdRegistry h f) res ids w) = heap w \<and>
   glog (createMinions e (EtcdRegistry h f) res ids w) = glog w \<and>
   goroutines (createMinions e (EtcdRegistry h f) res ids w) = goroutines w"
  by (induction ids arbitrary: w) (simp_all split: option.splits)






lemma makeMinionRegistry_heap: "heap (snd (makeMinionRegistry e c w)) = heap w"
  by (auto simp: builder_defs createMinions_frame Let_def
      split: option.splits prod.splits sum.splits)

lemma makeMinionRegistry_createMinionErr:
  "fst (makeMinionRegistry (e\<lparr>createMinionErr := f\<rparr>) c w) = fst (makeMinionRegistry e c w)"
  by (auto simp: builder_defs Let_def split: option.splits prod.splits sum.splits)

subsection \<open>Decoration order\<close>

text \<open>
  Claim C2. For every configuration, whatever the collaborators do, the registry that
  \<open>makeMinionRegistry\<close> returns has its Cached layer, if any, outermost and only
  there, and no HealthFiltered layer around a Cached one: health filtering is applied
  inside the cache.
\<close>

theorem makeMinionRegistry_ordering:
  "Cached_outermost (fst (makeMinionRegistry e c w)) \<and>
   HealthFiltered_inside (fst (makeMinionRegistry e c w))"
  by (auto simp: builder_defs Cached_outermost_def Let_def
      split: option.splits prod.splits if_splits sum.splits)

theorem makeMinionRegistry_ordering_witness:
  "fst (makeMinionRegistry example_env example_config empty_world) =
     Cached (HealthFiltered (Static (EtcdRegistry (EtcdHelperRef 0) None)) HttpClient)
       30000000000 \<and>
   Cached_outermost
     (Cached (HealthFiltered (Static (EtcdRegistry (EtcdHelperRef 0) None)) HttpClient)
        30000000000) \<and>
   HealthFiltered_inside
     (Cached (HealthFiltered (Static (EtcdRegistry (EtcdHelperRef 0) None)) HttpClient)
        30000000000)"
proof -
  have r: "fst (makeMinionRegistry example_env example_config empty_world) =
     Cached (HealthFiltered (Static (EtcdRegistry (EtcdHelperRef 0) None)) HttpClient)
       30000000000"
    by (simp add: builder_defs example_env_def example_config_def empty_world_def
        word_sless_alt)
  show ?thesis
    using makeMinionRegistry_ordering [of example_env example_config empty_world]
    by (simp add: r)
qed

subsection \<open>Failure of the cloud registry\<close>




subsection \<open>Failure of the caching layer\<close>

text \<open>
  Claim C5. With a node-cache interval greater than zero, let \<open>r0\<close> be the registry the
  builder yields for the same configuration with the cache step switched off (interval
  0): the registry of the previous steps, which has no Cached layer. If
  \<^verbatim>\<open>NewCachingRegistry\<close> fails on it, the builder returns \<open>r0\<close> itself and logs the
  failure; if it succeeds, the builder returns \<open>r0\<close> under a Cached layer whose TTL is the
  configured interval.
\<close>

theorem cache_failure_degrades:
  assumes "0 <s MinionCacheTTL c"
  shows "(case makeMinionRegistry e (c\<lparr>MinionCacheTTL := 0\<rparr>) w of
            (r0, w0) \<Rightarrow>
              \<not> has_Cached r0 \<and>
              (case cachingRegistryErr e r0 (MinionCacheTTL c) of
                 Some err \<Rightarrow>
                   makeMinionRegistry e c w =
                     (r0,
                      glog_Errorf ''Failed to initialize caching layer, ignoring cache.'' [] w0)
               | None \<Rightarrow> makeMinionRegistry e c w = (Cached r0 (MinionCacheTTL c), w0)))"
  using assms
  by (auto simp: builder_defs Let_def split: option.splits prod.splits sum.splits)

theorem cache_failure_degrades_witness:
  "0 <s MinionCacheTTL example_config \<and>
   makeMinionRegistry cacheless_env example_config empty_world =
     (HealthFiltered (Static (EtcdRegistry (EtcdHelperRef 0) None)) HttpClient,
      glog_Errorf ''Failed to initialize caching layer, ignoring cache.'' []
        (snd (makeMinionRegistry cacheless_env (example_config\<lparr>MinionCacheTTL := 0\<rparr>)
           empty_world))) \<and>
   fst (makeMinionRegistry example_env example_config empty_world) =
     Cached (HealthFiltered (Static (EtcdRegistry (EtcdHelperRef 0) None)) HttpClient)
       30000000000"
proof -
  have h: "0 <s MinionCacheTTL example_config"
    by (simp add: example_config_def word_sless_alt)
  have r0: "fst (makeMinionRegistry en (example_config\<lparr>MinionCacheTTL := 0\<rparr>) empty_world) =
      HealthFiltered (Static (EtcdRegistry (EtcdHelperRef 0) None)) HttpClient" for en
    by (simp add: builder_defs example_config_def empty_world_def case_prod_beta)
  have ttl: "MinionCacheTTL example_config = 30000000000"
    by (simp add: example_config_def)
  have fails: "cachingRegistryErr cacheless_env d t = Some ''list failed''" for d t
    by (simp add: cacheless_env_def example_env_def)
  have succeeds: "cachingRegistryErr example_env d t = None" for d t
    by (simp add: example_env_def)
  show ?thesis
    using cache_failure_degrades [OF h, of cacheless_env empty_world]
      cache_failure_degrades [OF h, of example_env empty_world] h
    by (simp add: case_prod_beta r0 ttl fails succeeds)
qed

subsection \<open>Membership of the static registry\<close>




section \<open>Initialization and the handler map\<close>

lemma Master_init_result:
  "Master_init cl pig m w =
     (m\<lparr>storage := Some (length (heap w))\<rparr>,
      w\<lparr>goroutines := goroutines w @
            [Forever_UpdateAllContainers (PodCache pig (podRegistry m)) 30000000000],
         heap := heap w @
           [[(''pods'', PodREST cl (PodCache pig (podRegistry m)) pig (podRegistry m) (client m)),
             (''replicationControllers'', ControllerREST (controllerRegistry m) (podRegistry m)),
             (''services'', ServiceREST (serviceRegistry m) cl (minionRegistry m)),
             (''endpoints'', EndpointREST (endpointRegistry m)),
             (''minions'', MinionREST (minionRegistry m)),
             (''events'', EventREST (eventRegistry m)),
             (''bindings'', BindingREST (bindingRegistry m))]]\<rparr>)"
  by (simp add: Master_init_def NewPodCache_def go_def new_map_def Second_def Let_def)

lemma Master_init_ok: "storage_ok (fst (Master_init cl pig m w)) (snd (Master_init cl pig m w))"
  by (simp add: Master_init_result storage_ok_def)

lemma Master_init_kinds:
  "kinds (fst (Master_init cl pig m w)) (snd (Master_init cl pig m w)) = resource_kinds"
  by (simp add: Master_init_result kinds_def map_range_def resource_kinds_def)

lemma card_resource_kinds: "card resource_kinds = 7"
  by (simp add: resource_kinds_def)

lemma New_storage: "storage (fst (New e c w)) = Some (length (heap w))"
  using makeMinionRegistry_heap [of e c w]
  by (simp add: New_def Master_init_result Let_def case_prod_beta)

subsection \<open>Copying a map\<close>

lemma update_fresh: "k \<notin> fst ` set al \<Longrightarrow> AList.update k v al = al @ [(k, v)]"
  by (induction al) auto

lemma copy_storage_heap:
  "r < length (heap w) \<Longrightarrow> distinct (map fst (heap w ! r @ es)) \<Longrightarrow>
   copy_storage r es w = w\<lparr>heap := (heap w)[r := heap w ! r @ es]\<rparr>"
proof (induction es arbitrary: w)
  case Nil
  then show ?case by simp
next
  case (Cons p es)
  obtain k v where p: "p = (k, v)" by (cases p)
  have fresh: "k \<notin> fst ` set (heap w ! r)"
    using Cons.prems(2) by (auto simp: p)
  have step: "map_assign r k v w = w\<lparr>heap := (heap w)[r := heap w ! r @ [(k, v)]]\<rparr>"
    by (simp add: map_assign_def update_fresh [OF fresh])
  show ?case
    using Cons.prems Cons.IH [of "map_assign r k v w"]
    by (simp add: p step)
qed

text \<open>
  An exporter allocates the next map object, fills it with the entries of the internal
  map and changes nothing else.
\<close>

lemma API_result:
  assumes "storage_ok m w"
  shows "API v m w =
    ((length (heap w), (case v of V1beta1 \<Rightarrow> V1beta1_Codec | V1beta2 \<Rightarrow> V1beta2_Codec),
      ''/api/v1beta1'', Latest_SelfLinker),
     w\<lparr>heap := heap w @ [map_range (storage m) w]\<rparr>)"
proof -
  let ?w1 = "w\<lparr>heap := heap w @ [[]]\<rparr>"
  have range: "map_range (storage m) ?w1 = map_range (storage m) w"
    using assms by (auto simp: storage_ok_def map_range_def nth_append split: option.splits)
  have dist: "distinct (map fst (map_range (storage m) w))"
    using assms by (auto simp: storage_ok_def map_range_def split: option.splits)
  have "copy_storage (length (heap w)) (map_range (storage m) w) ?w1 =
      ?w1\<lparr>heap := (heap ?w1)[length (heap w) :=
        heap ?w1 ! length (heap w) @ map_range (storage m) w]\<rparr>"
    by (rule copy_storage_heap) (simp_all add: dist)
  then have "copy_storage (length (heap w)) (map_range (storage m) w) ?w1 =
      w\<lparr>heap := heap w @ [map_range (storage m) w]\<rparr>"
    by simp
  then show ?thesis
    by (cases v) (simp_all add: API_v1beta1_def API_v1beta2_def new_map_def range)
qed

lemma API_frame:
  assumes "storage_ok m w"
  shows "storage_ok m (snd (API v m w))"
    and "map_range (storage m) (snd (API v m w)) = map_range (storage m) w"
  using assms
  by (auto simp: API_result storage_ok_def map_range_def nth_append split: option.splits)

lemma run_calls_frame:
  "storage_ok m w \<Longrightarrow> map_range (storage m) (run_calls vs m w) = map_range (storage m) w"
  by (induction vs arbitrary: w) (simp_all add: API_frame)

lemma mutate_other:
  "a \<noteq> r \<Longrightarrow>
   heap (mutate r mu w) ! a = heap w ! a \<and> length (heap (mutate r mu w)) = length (heap w)"
  by (cases mu) (simp_all add: map_delete_def map_assign_def)

lemma example_storage: "storage example_master = Some 0"
  by (simp add: example_master_def New_storage empty_world_def)

lemma example_heap:
  "heap example_world =
     [[(''pods'', PodREST None (PodCache None (EtcdRegistry (EtcdHelperRef 0)
           (Some (BasicManifestFactory (EtcdRegistry (EtcdHelperRef 0) None))))) None
           (EtcdRegistry (EtcdHelperRef 0)
              (Some (BasicManifestFactory (EtcdRegistry (EtcdHelperRef 0) None)))) None),
       (''replicationControllers'', ControllerREST (EtcdRegistry (EtcdHelperRef 0) None)
           (EtcdRegistry (EtcdHelperRef 0)
              (Some (BasicManifestFactory (EtcdRegistry (EtcdHelperRef 0) None))))),
       (''services'', ServiceREST (EtcdRegistry (EtcdHelperRef 0) None) None
           (Static (EtcdRegistry (EtcdHelperRef 0) None))),
       (''endpoints'', EndpointREST (EtcdRegistry (EtcdHelperRef 0) None)),
       (''minions'', MinionREST (Static (EtcdRegistry (EtcdHelperRef 0) None))),
       (''events'', EventREST (EventEtcdRegistry (EtcdHelperRef 0) 0)),
       (''bindings'', BindingREST (EtcdRegistry (EtcdHelperRef 0)
           (Some (BasicManifestFactory (EtcdRegistry (EtcdHelperRef 0) None)))))]]"
  by (simp add: example_world_def New_def Master_init_result builder_defs example_env_def
      example_config_def empty_world_def static_config_def Let_def)

lemma example_ok: "storage_ok example_master example_world"
  by (simp add: storage_ok_def example_storage example_heap)

lemma example_storage_ok:
  "storage_ok example_master w = (0 < length (heap w) \<and> distinct (map fst (heap w ! 0)))"
  by (simp add: storage_ok_def example_storage)

subsection \<open>The resource kinds\<close>

text \<open>
  Claim C3. Right after \<open>Master_init\<close> the keys of the handler map are exactly the seven
  resource kinds pods, replicationControllers, services, endpoints, minions, events and
  bindings, and they are still exactly these after any sequence of calls of the two
  exporters, the only other operations on a Master.
\<close>

theorem init_storage_kinds:
  "case Master_init cl pig m w of
     (m', w') \<Rightarrow>
       kinds m' w' = resource_kinds \<and> card (kinds m' w') = 7 \<and>
       kinds m' (run_calls vs m' w') = resource_kinds"
proof -
  obtain m' w' where init: "Master_init cl pig m w = (m', w')"
    by (cases "Master_init cl pig m w")
  have ok: "storage_ok m' w'"
    using Master_init_ok [of cl pig m w] by (simp add: init)
  have k: "kinds m' w' = resource_kinds"
    using Master_init_kinds [of cl pig m w] by (simp add: init)
  have "kinds m' (run_calls vs m' w') = kinds m' w'"
    by (simp add: kinds_def run_calls_frame [OF ok])
  then show ?thesis
    by (simp add: init k card_resource_kinds)
qed

theorem init_storage_kinds_witness:
  "kinds (fst (Master_init None None blank_master empty_world))
     (run_calls [V1beta1, V1beta2]
        (fst (Master_init None None blank_master empty_world))
        (snd (Master_init None None blank_master empty_world))) =
   {''pods'', ''replicationControllers'', ''services'', ''endpoints'', ''minions'', ''events'',
    ''bindings''}"
  using init_storage_kinds [where cl = None and pig = None and m = blank_master
      and w = empty_world and vs = "[V1beta1, V1beta2]"]
  by (simp add: case_prod_beta resource_kinds_def)

section \<open>The versioned exporters\<close>

text \<open>
  Claim C7. Take a Master whose storage is in order, call an exporter, call an exporter
  again, let the caller remove or set a key in the first map returned, and call an
  exporter a third time. The maps returned are new objects, different from the internal
  map and from each other; each holds the entries of the internal map; the caller's
  change leaves the internal map and the second map as they were; and the third call
  returns the entries of the internal map again.
\<close>

theorem exporter_fresh_copy:
  assumes "storage_ok m w"
  shows "case API v1 m w of
           ((r1, x1), w1) \<Rightarrow>
         case API v2 m w1 of
           ((r2, x2), w2) \<Rightarrow>
         case API v3 m (mutate r1 mu w2) of
           ((r3, x3), w4) \<Rightarrow>
             Some r1 \<noteq> storage m \<and> Some r2 \<noteq> storage m \<and> r1 \<noteq> r2 \<and>
             map_lookup r1 w1 = map_of (map_range (storage m) w) \<and>
             map_lookup r2 w2 = map_of (map_range (storage m) w) \<and>
             map_range (storage m) (mutate r1 mu w2) = map_range (storage m) w \<and>
             map_lookup r2 (mutate r1 mu w2) = map_lookup r2 w2 \<and>
             map_lookup r3 w4 = map_of (map_range (storage m) w)"
proof -
  let ?E = "map_range (storage m) w"
  let ?r1 = "length (heap w)"
  let ?w1 = "w\<lparr>heap := heap w @ [?E]\<rparr>"
  let ?r2 = "Suc (length (heap w))"
  let ?w2 = "w\<lparr>heap := heap w @ [?E, ?E]\<rparr>"
  let ?w3 = "mutate ?r1 mu ?w2"
  have ok1: "storage_ok m ?w1"
    using assms by (auto simp: storage_ok_def nth_append split: option.splits)
  have range1: "map_range (storage m) ?w1 = ?E"
    using assms by (auto simp: storage_ok_def map_range_def nth_append split: option.splits)
  have call1: "API v1 m w = ((?r1, snd (fst (API v1 m w))), ?w1)"
    by (simp add: API_result [OF assms])
  have call2: "API v2 m ?w1 = ((?r2, snd (fst (API v2 m ?w1))), ?w2)"
    by (simp add: API_result [OF ok1] range1)
  have len3: "length (heap ?w3) = Suc (Suc (length (heap w)))"
    by (cases mu) (simp_all add: map_delete_def map_assign_def)
  have other3: "a \<noteq> ?r1 \<Longrightarrow> heap ?w3 ! a = heap ?w2 ! a" for a
    by (simp add: mutate_other)
  have range3: "map_range (storage m) ?w3 = ?E"
    using assms other3 by (auto simp: storage_ok_def map_range_def nth_append split: option.splits)
  have ok3: "storage_ok m ?w3"
    using assms other3 len3 by (auto simp: storage_ok_def nth_append split: option.splits)
  have call3: "API v3 m ?w3 =
      ((length (heap ?w3), snd (fst (API v3 m ?w3))), ?w3\<lparr>heap := heap ?w3 @ [?E]\<rparr>)"
    by (simp add: API_result [OF ok3] range3)
  have fresh: "Some ?r1 \<noteq> storage m \<and> Some ?r2 \<noteq> storage m"
    using assms by (auto simp: storage_ok_def split: option.splits)
  have keep2: "map_lookup ?r2 ?w3 = map_lookup ?r2 ?w2"
    by (simp add: map_lookup_def other3)
  show ?thesis
    apply (subst call1)
    apply (simp only: prod.case)
    apply (subst call2)
    apply (simp only: prod.case)
    apply (subst call3)
    apply (simp only: prod.case)
    using fresh range3 keep2
    apply (simp add: map_lookup_def nth_append)
    done
qed

theorem exporter_fresh_copy_witness:
  "storage_ok example_master example_world \<and>
   (case API V1beta1 example_master example_world of
      ((r1, x1), w1) \<Rightarrow>
    case API V1beta2 example_master w1 of
      ((r2, x2), w2) \<Rightarrow>
    case API V1beta1 example_master (mutate r1 (Delete ''pods'') w2) of
      ((r3, x3), w4) \<Rightarrow>
        r1 = 1 \<and> r2 = 2 \<and> r3 = 3 \<and>
        map_lookup r1 (mutate r1 (Delete ''pods'') w2) ''pods'' = None \<and>
        map_lookup 0 (mutate r1 (Delete ''pods'') w2) ''pods'' =
          map_lookup 0 example_world ''pods'' \<and>
        map_lookup r2 (mutate r1 (Delete ''pods'') w2) ''pods'' =
          map_lookup 0 example_world ''pods'' \<and>
        map_lookup r3 w4 ''pods'' = map_lookup 0 example_world ''pods'' \<and>
        map_lookup 0 example_world ''pods'' \<noteq> None)"
proof -
  note ok = example_ok
  show ?thesis
    using exporter_fresh_copy [OF ok, where ?v1.0 = V1beta1 and ?v2.0 = V1beta2
        and mu = "Delete ''pods''" and ?v3.0 = V1beta1] ok
    by (simp add: API_result example_storage_ok example_storage example_heap map_range_def
        map_lookup_def map_delete_def nth_append del: API.simps)
qed

text \<open>
  Claim C8. Called one after the other on a Master whose storage is in order,
  \<open>API_v1beta1\<close> and \<open>API_v1beta2\<close> return maps with the same keys and the same handler
  under each key, those of the internal map; they return the same self-link builder and
  the same root path, \<^verbatim>\<open>/api/v1beta1\<close>; and they return different codecs.
\<close>

theorem exporters_agree:
  assumes "storage_ok m w"
  shows "case API_v1beta1 m w of
           ((storage1, codec1, root1, linker1), w1) \<Rightarrow>
         case API_v1beta2 m w1 of
           ((storage2, codec2, root2, linker2), w2) \<Rightarrow>
             map_lookup storage1 w2 = map_lookup storage2 w2 \<and>
             map_lookup storage1 w2 = map_of (map_range (storage m) w) \<and>
             linker1 = linker2 \<and> codec1 \<noteq> codec2 \<and>
             root1 = root2 \<and> root1 = ''/api/v1beta1''"
proof -
  let ?E = "map_range (storage m) w"
  let ?w1 = "w\<lparr>heap := heap w @ [?E]\<rparr>"
  have ok1: "storage_ok m ?w1"
    using assms by (auto simp: storage_ok_def nth_append split: option.splits)
  have range1: "map_range (storage m) ?w1 = ?E"
    using assms by (auto simp: storage_ok_def map_range_def nth_append split: option.splits)
  show ?thesis
    using API_result [OF assms, of V1beta1] API_result [OF ok1, of V1beta2]
    by (simp add: range1 map_lookup_def nth_append)
qed

theorem exporters_agree_witness:
  "storage_ok example_master example_world \<and>
   (case API_v1beta1 example_master example_world of
      ((storage1, codec1, root1, linker1), w1) \<Rightarrow>
    case API_v1beta2 example_master w1 of
      ((storage2, codec2, root2, linker2), w2) \<Rightarrow>
        map_lookup storage1 w2 = map_lookup storage2 w2 \<and>
        fst ` set (heap w2 ! storage1) = resource_kinds \<and>
        fst ` set (heap w2 ! storage2) = resource_kinds \<and>
        codec1 = V1beta1_Codec \<and> codec2 = V1beta2_Codec \<and>
        linker1 = Latest_SelfLinker \<and> linker2 = Latest_SelfLinker \<and>
        root1 = ''/api/v1beta1'' \<and> root2 = ''/api/v1beta1'')"
proof -
  note ok = example_ok
  have v1: "API_v1beta1 = API V1beta1" and v2: "API_v1beta2 = API V1beta2"
    by (simp_all add: fun_eq_iff)
  show ?thesis
    using exporters_agree [OF ok] ok
    by (simp add: v1 v2 API_result example_storage_ok example_storage example_heap
        map_range_def map_lookup_def nth_append resource_kinds_def del: API.simps)
qed

section \<open>Errors of node creation\<close>

text \<open>
  Claim C1, as stated, fails. With a storage backend that rejects every node entry, the
  first \<^verbatim>\<open>CreateMinion\<close> call of the static path returns an error; all the same
  \<open>makeMinionRegistry\<close> returns the Static registry, the very value it returns when
  every creation succeeds, and leaves the world as it was, and \<open>New\<close> goes on to assemble
  the Master and its storage map.
\<close>

theorem creation_error_counterexample:
  "fst (CreateMinion rejecting_env (EtcdRegistry (EtcdHelperRef 0) None)
         (Minion ''n1'' [(''cpu'', 1000)]) empty_world) = Some ''etcd: connection refused'' \<and>
   makeMinionRegistry rejecting_env static_config empty_world =
     (Static (EtcdRegistry (EtcdHelperRef 0) None), empty_world) \<and>
   fst (makeMinionRegistry example_env static_config empty_world) =
     Static (EtcdRegistry (EtcdHelperRef 0) None) \<and>
   storage (fst (New rejecting_env static_config empty_world)) = Some 0"
  by (simp add: New_storage builder_defs rejecting_env_def example_env_def static_config_def
      example_config_def empty_world_def)

text \<open>
  Claim C1, amended. A per-node creation error is not surfaced and does not abort
  initialization: \<open>makeMinionRegistry\<close> has no error result and returns the same registry
  whatever the outcomes of the \<^verbatim>\<open>CreateMinion\<close> calls are, and \<open>New\<close> returns the
  same Master, with its storage map assembled.
\<close>

theorem creation_error_discarded:
  "fst (makeMinionRegistry (e\<lparr>createMinionErr := f\<rparr>) c w) = fst (makeMinionRegistry e c w) \<and>
   fst (New (e\<lparr>createMinionErr := f\<rparr>) c w) = fst (New e c w) \<and>
   storage (fst (New (e\<lparr>createMinionErr := f\<rparr>) c w)) \<noteq> None"
proof -
  have reg: "fst (makeMinionRegistry (e\<lparr>createMinionErr := f\<rparr>) c w) =
      fst (makeMinionRegistry e c w)"
    by (rule makeMinionRegistry_createMinionErr)
  have "fst (New (e\<lparr>createMinionErr := f\<rparr>) c w) = fst (New e c w)"
    using reg makeMinionRegistry_heap [of "e\<lparr>createMinionErr := f\<rparr>" c w]
      makeMinionRegistry_heap [of e c w]
    by (simp add: New_def Master_init_result Let_def case_prod_beta)
  then show ?thesis
    using reg by (simp add: New_storage)
qed

end
